theory Spec2Isabelle
  imports Complex_Main "HOL-Library.AList" "HOL-Library.Sublist" "HOL-Library.Log_Nat"
begin

section \<open>Values exchanged with the JSON library\<close>

text \<open>
  The dashboard backend (\<^verbatim>\<open>scripts/storage/dashboard/app.py\<close>) keeps all of its data as
  the Python values that \<^verbatim>\<open>json.load\<close> returns and \<^verbatim>\<open>json.dump\<close> accepts.
  A dictionary keeps its insertion order, so it is an association list; a finite
  floating-point number is the rational that it denotes exactly. A character is a code
  point below 256.
\<close>

datatype json =
    JNull
  | JBool bool
  | JInt int
  | JFloat rat
  | JStr string
  | JList "json list"
  | JObj "(string \<times> json) list"

text \<open>The exceptions that the operations on these values raise.\<close>

datatype py_error = AttributeError | TypeError

text \<open>Python's truth value of an object, as tested by \<^verbatim>\<open>not x\<close>, \<^verbatim>\<open>x or y\<close> and \<^verbatim>\<open>if x\<close>.\<close>

fun truthy :: "json \<Rightarrow> bool" where
  "truthy JNull = False"
| "truthy (JBool b) = b"
| "truthy (JInt i) = (i \<noteq> 0)"
| "truthy (JFloat r) = (r \<noteq> 0)"
| "truthy (JStr s) = (s \<noteq> [])"
| "truthy (JList xs) = (xs \<noteq> [])"
| "truthy (JObj d) = (d \<noteq> [])"

fun is_dict :: "json \<Rightarrow> bool" where
  "is_dict (JObj d) = True"
| "is_dict _ = False"

text \<open>\<^verbatim>\<open>d.get(key, default)\<close> on a dictionary.\<close>

definition dict_get :: "(string \<times> json) list \<Rightarrow> string \<Rightarrow> json \<Rightarrow> json" where
  "dict_get d key dflt = (case map_of d key of None \<Rightarrow> dflt | Some v \<Rightarrow> v)"

text \<open>\<^verbatim>\<open>x.get(key, default)\<close> on any value: only a dictionary has the method.\<close>

fun py_get :: "json \<Rightarrow> string \<Rightarrow> json \<Rightarrow> py_error + json" where
  "py_get (JObj d) key dflt = Inr (dict_get d key dflt)"
| "py_get _ key dflt = Inl AttributeError"

text \<open>
  \<^verbatim>\<open>x[key] = value\<close> with a string key: a dictionary replaces the value of an existing key
  in place and appends a new key at the end; every other value refuses the assignment.
\<close>

fun py_setitem :: "json \<Rightarrow> string \<Rightarrow> json \<Rightarrow> py_error + json" where
  "py_setitem (JObj d) key v = Inr (JObj (AList.update key v d))"
| "py_setitem _ key v = Inl TypeError"

text \<open>The entry of a record under a key, if the value is a dictionary holding that key.\<close>

fun field :: "json \<Rightarrow> string \<Rightarrow> json option" where
  "field (JObj d) key = map_of d key"
| "field _ key = None"

section \<open>Files, the event queue, responses\<close>

text \<open>
  A path of the file system names no file, a file that cannot be opened or parsed, or a
  JSON document. Directories are not tracked: \<^verbatim>\<open>save_json_file\<close> creates them as needed.
\<close>

datatype file_content = Unreadable | Document json

type_synonym filesystem = "string \<Rightarrow> file_content option"

text \<open>
  The state shared by the request handlers and the background threads: the files, the
  global queue \<^verbatim>\<open>update_queue\<close>, and the calls of \<^verbatim>\<open>run_migration\<close> that have been handed
  to a thread (their arguments, in the order of \<^verbatim>\<open>thread.start()\<close>).
\<close>

record world =
  files :: filesystem
  update_queue :: "json list"
  threads :: "(json \<times> json) list"

text \<open>A response of the API: the HTTP status code and the body given to \<^verbatim>\<open>jsonify\<close>.\<close>

datatype response = Response nat json

text \<open>\<^verbatim>\<open>os.path.join(a, b)\<close> for a relative second component.\<close>

definition path_join :: "string \<Rightarrow> string \<Rightarrow> string" where
  "path_join a b =
     (if a = [] then b else if last a = CHR ''/'' then a @ b else a @ ''/'' @ b)"

text \<open>The configured paths; the argument is \<^verbatim>\<open>WORKSPACE_DIR\<close>.\<close>

definition METRICS_FILE :: "string \<Rightarrow> string" where
  "METRICS_FILE wd = path_join wd ''transfer_metrics/historical.json''"

definition PREDICTIONS_FILE :: "string \<Rightarrow> string" where
  "PREDICTIONS_FILE wd = path_join wd ''predictions/resources/prediction.json''"

definition STATUS_FILE :: "string \<Rightarrow> string" where
  "STATUS_FILE wd = path_join wd ''status/current.json''"

text \<open>
  \<^verbatim>\<open>load_json_file(filepath, default=None)\<close>: the bare \<^verbatim>\<open>except\<close> turns every failure to
  open or to parse into \<^verbatim>\<open>default or {}\<close>. A document that parses is returned whatever
  its shape.
\<close>

definition load_json_file :: "filesystem \<Rightarrow> string \<Rightarrow> json \<Rightarrow> json" where
  "load_json_file fs filepath dflt =
     (case fs filepath of
        Some (Document j) \<Rightarrow> j
      | _ \<Rightarrow> (if truthy dflt then dflt else JObj []))"

text \<open>\<^verbatim>\<open>save_json_file(filepath, data)\<close> on writable storage: the file then holds the document.\<close>

definition save_json_file :: "filesystem \<Rightarrow> string \<Rightarrow> json \<Rightarrow> filesystem" where
  "save_json_file fs filepath data = fs(filepath \<mapsto> Document data)"

section \<open>Stopping a migration\<close>

text \<open>
  \<^verbatim>\<open>POST /api/stop\<close>: read the status document, overwrite its \<^verbatim>\<open>state\<close>, write it back.
  An exception that leaves the handler is the left injection.
\<close>

definition stop_migration :: "string \<Rightarrow> world \<Rightarrow> py_error + (response \<times> world)" where
  "stop_migration wd w =
     (let status = load_json_file (files w) (STATUS_FILE wd) JNull in
      case py_setitem status ''state'' (JStr ''stopping'') of
        Inl e \<Rightarrow> Inl e
      | Inr status' \<Rightarrow>
          Inr (Response 200 (JObj [(''status'', JStr ''stopping''),
                                   (''message'', JStr ''Migration is being stopped'')]),
               w\<lparr>files := save_json_file (files w) (STATUS_FILE wd) status'\<rparr>))"

text \<open>Calling the handler \<open>n\<close> times in a row; the first exception ends the sequence.\<close>

fun stop_repeatedly :: "nat \<Rightarrow> string \<Rightarrow> world \<Rightarrow> py_error + world" where
  "stop_repeatedly 0 wd w = Inr w"
| "stop_repeatedly (Suc n) wd w =
     (case stop_migration wd w of
        Inl e \<Rightarrow> Inl e
      | Inr (r, w') \<Rightarrow> stop_repeatedly n wd w')"

text \<open>The status record as a reader of the state store sees it.\<close>

definition read_status :: "string \<Rightarrow> world \<Rightarrow> json" where
  "read_status wd w = load_json_file (files w) (STATUS_FILE wd) JNull"

section \<open>Read-only endpoints\<close>

definition status_code :: "response \<Rightarrow> nat" where
  "status_code r = (case r of Response code body \<Rightarrow> code)"

text \<open>
  \<^verbatim>\<open>GET /api/status\<close>. The host metrics of \<^verbatim>\<open>get_system_metrics()\<close> and the text of
  \<^verbatim>\<open>datetime.now().isoformat()\<close> come from the environment.
\<close>

definition get_status :: "string \<Rightarrow> json \<Rightarrow> string \<Rightarrow> world \<Rightarrow> response" where
  "get_status wd system_metrics now w =
     (let status = load_json_file (files w) (STATUS_FILE wd) JNull in
      Response 200 (JObj [(''status'', status),
                          (''system_metrics'', system_metrics),
                          (''timestamp'', JStr now)]))"

text \<open>\<^verbatim>\<open>GET /api/metrics\<close>.\<close>

definition get_metrics :: "string \<Rightarrow> json \<Rightarrow> world \<Rightarrow> response" where
  "get_metrics wd system_metrics w =
     (let metrics = load_json_file (files w) (METRICS_FILE wd) JNull;
          predictions = load_json_file (files w) (PREDICTIONS_FILE wd) JNull in
      Response 200 (JObj [(''historical'', metrics),
                          (''predictions'', predictions),
                          (''current'', system_metrics)]))"

text \<open>\<^verbatim>\<open>len(x)\<close>.\<close>

fun py_len :: "json \<Rightarrow> py_error + nat" where
  "py_len (JStr s) = Inr (length s)"
| "py_len (JList xs) = Inr (length xs)"
| "py_len (JObj d) = Inr (length d)"
| "py_len _ = Inl TypeError"

text \<open>
  The elements that \<^verbatim>\<open>for t in x\<close> visits: the items of a list, the keys of a
  dictionary, the one-character strings of a string.
\<close>

fun py_iter :: "json \<Rightarrow> py_error + json list" where
  "py_iter (JStr s) = Inr (map (\<lambda>c. JStr [c]) s)"
| "py_iter (JList xs) = Inr xs"
| "py_iter (JObj d) = Inr (map (\<lambda>kv. JStr (fst kv)) d)"
| "py_iter _ = Inl TypeError"

text \<open>\<^verbatim>\<open>sum(1 for t in ts if t.get('success'))\<close>; the first element without \<^verbatim>\<open>get\<close> raises.\<close>

fun count_success :: "json list \<Rightarrow> py_error + nat" where
  "count_success [] = Inr 0"
| "count_success (t # ts) =
     (case py_get t ''success'' JNull of
        Inl e \<Rightarrow> Inl e
      | Inr flag \<Rightarrow>
          (case count_success ts of
             Inl e \<Rightarrow> Inl e
           | Inr n \<Rightarrow> Inr (if truthy flag then Suc n else n)))"

text \<open>
  Arithmetic on \<^verbatim>\<open>float\<close>, the binary64 format: a result is the exact result rounded to
  the nearest number with a significand of 53 bits, a tie going to the even significand.
  For a positive \<open>x\<close>, \<open>exponent x\<close> is the integer \<open>e\<close> for which \<open>x\<close> is at least 2 to
  the power \<open>e\<close> and less than twice that; the spacing of the format around \<open>x\<close> is 2 to
  the power \<open>e - 52\<close>, and is no finer than that of the smallest normal numbers, whose
  exponent is \<open>-1022\<close>. Overflow is left out: the arguments here are at most 100.
\<close>

definition exponent :: "rat \<Rightarrow> int" where
  "exponent x =
     (case quotient_of x of
        (p, q) \<Rightarrow>
          (let e = bitlen p - bitlen q in
           if power_int 2 e \<le> x then e else e - 1))"

definition round_half_even :: "rat \<Rightarrow> int" where
  "round_half_even m =
     (let f = \<lfloor>m\<rfloor>; d = m - of_int f in
      if d < 1 / 2 then f
      else if 1 / 2 < d then f + 1
      else if even f then f else f + 1)"

definition round_double :: "rat \<Rightarrow> rat" where
  "round_double x =
     (let e = max (exponent \<bar>x\<bar>) (- 1022);
          ulp = power_int 2 (e - 52) in
      sgn x * of_int (round_half_even (\<bar>x\<bar> / ulp)) * ulp)"

text \<open>
  \<^verbatim>\<open>GET /api/transfers\<close>. The operands are evaluated in the order of the source:
  the list itself, its length, the count of successes, the divisor. The quotient of the
  two integers is rounded once, and so is its product with 100.
\<close>

definition get_transfers :: "string \<Rightarrow> world \<Rightarrow> py_error + response" where
  "get_transfers wd w =
     (let metrics = load_json_file (files w) (METRICS_FILE wd) JNull in
      case py_get metrics ''transfers'' (JList []) of
        Inl e \<Rightarrow> Inl e
      | Inr transfers \<Rightarrow>
          (case py_len transfers of
             Inl e \<Rightarrow> Inl e
           | Inr n \<Rightarrow>
               (case py_iter transfers of
                  Inl e \<Rightarrow> Inl e
                | Inr ts \<Rightarrow>
                    (case count_success ts of
                       Inl e \<Rightarrow> Inl e
                     | Inr k \<Rightarrow>
                         Inr (Response 200 (JObj
                           [(''transfers'', transfers),
                            (''total_count'', JInt (int n)),
                            (''success_rate'',
                               JFloat (round_double
                                 (round_double (rat_of_nat k / rat_of_nat (max n 1)) * 100)))]))))))"

section \<open>Starting and running a migration\<close>

text \<open>
  \<^verbatim>\<open>POST /api/start\<close>; the argument is \<^verbatim>\<open>request.json\<close>. The handler reads neither the
  files nor the queue. It starts a thread for \<^verbatim>\<open>run_migration(source, target)\<close> and
  answers without waiting for it.
\<close>

definition start_migration :: "json \<Rightarrow> world \<Rightarrow> py_error + (response \<times> world)" where
  "start_migration params w =
     (case py_get params ''source'' JNull of
        Inl e \<Rightarrow> Inl e
      | Inr source \<Rightarrow>
          (case py_get params ''target'' JNull of
             Inl e \<Rightarrow> Inl e
           | Inr target \<Rightarrow>
               if \<not> truthy source \<or> \<not> truthy target
               then Inr (Response 400 (JObj [(''error'', JStr ''Source and target are required'')]),
                         w)
               else Inr (Response 200 (JObj [(''status'', JStr ''started''),
                                             (''message'', JStr ''Migration started'')]),
                         w\<lparr>threads := threads w @ [(source, target)]\<rparr>)))"

text \<open>
  \<^verbatim>\<open>str.strip()\<close>: the white space among the code points below 256 is 9 to 13, 28 to 32,
  133 and 160.
\<close>

definition is_space :: "char \<Rightarrow> bool" where
  "is_space c =
     (let n = (of_char c :: nat) in
      (9 \<le> n \<and> n \<le> 13) \<or> (28 \<le> n \<and> n \<le> 32) \<or> n = 133 \<or> n = 160)"

definition strip :: "string \<Rightarrow> string" where
  "strip s = rev (dropWhile is_space (rev (dropWhile is_space s)))"

text \<open>\<^verbatim>\<open>update_queue.put(item)\<close>: the queue is unbounded, so the call never blocks.\<close>

definition queue_put :: "json \<Rightarrow> world \<Rightarrow> world" where
  "queue_put item w = w\<lparr>update_queue := update_queue w @ [item]\<rparr>"

definition progress_event :: "string \<Rightarrow> rat \<Rightarrow> json" where
  "progress_event message t =
     JObj [(''type'', JStr ''progress''), (''message'', JStr message), (''timestamp'', JFloat t)]"

definition error_event :: "string \<Rightarrow> rat \<Rightarrow> json" where
  "error_event message t =
     JObj [(''type'', JStr ''error''), (''message'', JStr message), (''timestamp'', JFloat t)]"

text \<open>
  What the external process does is the environment's: \<^verbatim>\<open>subprocess.Popen\<close> raises (the
  text is \<^verbatim>\<open>str(e)\<close>) or yields a process, whose behaviour is the list of what each round
  of the monitoring loop observes: either \<^verbatim>\<open>readline()\<close> raises, or it returns a text
  and \<^verbatim>\<open>poll()\<close>, which is asked only after an empty text, returns the exit code or
  nothing.
\<close>

datatype readline = Readline string "int option" | ReadRaises string

datatype popen = PopenRaises string | Popen "readline list"

text \<open>How the monitoring loop ends: by its \<^verbatim>\<open>break\<close>, with the exit code, or by an exception.\<close>

datatype monitor_end = Exited int | Raised string

text \<open>
  The loop \<^verbatim>\<open>while True\<close> of \<^verbatim>\<open>run_migration\<close>. The clock \<open>clk\<close> gives the value of the
  \<open>n\<close>-th call of \<^verbatim>\<open>time.time()\<close> of this run. A behaviour that ends before the process
  has exited leaves the loop running: the result is \<open>None\<close>.
\<close>

fun monitor :: "(nat \<Rightarrow> rat) \<Rightarrow> readline list \<Rightarrow> nat \<Rightarrow> world \<Rightarrow> (monitor_end \<times> nat \<times> world) option" where
  "monitor clk [] n w = None"
| "monitor clk (ReadRaises msg # rest) n w = Some (Raised msg, n, w)"
| "monitor clk (Readline output poll # rest) n w =
     (if output = [] then
        (case poll of
           Some returncode \<Rightarrow> Some (Exited returncode, n, w)
         | None \<Rightarrow> monitor clk rest n w)
      else monitor clk rest (Suc n) (queue_put (progress_event (strip output) (clk n)) w))"

text \<open>How a run of the background thread ends.\<close>

datatype run_end =
    Finished
  | Failed
  | Crashed py_error

text \<open>The final status update after the loop, on the dictionary the run has built.\<close>

definition final_status :: "string \<Rightarrow> (string \<times> json) list \<Rightarrow> int \<Rightarrow> rat \<Rightarrow> world \<Rightarrow> world" where
  "final_status wd status returncode t w =
     (let status1 = AList.update ''state''
                      (JStr (if returncode = 0 then ''completed'' else ''failed'')) status;
          status2 = AList.update ''end_time'' (JFloat t) status1 in
      w\<lparr>files := save_json_file (files w) (STATUS_FILE wd) (JObj status2)\<rparr>)"

text \<open>
  The handler \<^verbatim>\<open>except Exception as e\<close>, with \<open>msg\<close> the text \<^verbatim>\<open>str(e)\<close>. An exception
  raised inside the handler ends the thread.
\<close>

definition handle_exception :: "string \<Rightarrow> string \<Rightarrow> rat \<Rightarrow> world \<Rightarrow> run_end \<times> world" where
  "handle_exception wd msg t w =
     (let status = load_json_file (files w) (STATUS_FILE wd) JNull in
      case py_setitem status ''state'' (JStr ''failed'') of
        Inl e \<Rightarrow> (Crashed e, w)
      | Inr status1 \<Rightarrow>
          (case py_setitem status1 ''error'' (JStr msg) of
             Inl e \<Rightarrow> (Crashed e, w)
           | Inr status2 \<Rightarrow>
               (Failed,
                queue_put (error_event msg t)
                  (w\<lparr>files := save_json_file (files w) (STATUS_FILE wd) status2\<rparr>))))"

text \<open>The first status of a run, and the first two statements, which build and save it.\<close>

definition initial_status :: "json \<Rightarrow> json \<Rightarrow> rat \<Rightarrow> (string \<times> json) list" where
  "initial_status source target t =
     [(''state'', JStr ''running''), (''source'', source), (''target'', target),
      (''start_time'', JFloat t)]"

definition begin_run ::
  "string \<Rightarrow> json \<Rightarrow> json \<Rightarrow> rat \<Rightarrow> world \<Rightarrow> (string \<times> json) list \<times> world" where
  "begin_run wd source target t w =
     (let status = initial_status source target t in
      (status, w\<lparr>files := save_json_file (files w) (STATUS_FILE wd) (JObj status)\<rparr>))"

text \<open>\<^verbatim>\<open>run_migration(source, target)\<close>, in a world that no other thread changes meanwhile.\<close>

definition run_migration ::
  "string \<Rightarrow> (nat \<Rightarrow> rat) \<Rightarrow> popen \<Rightarrow> json \<Rightarrow> json \<Rightarrow> world \<Rightarrow> (run_end \<times> world) option" where
  "run_migration wd clk process source target w =
     (case begin_run wd source target (clk 0) w of
        (status, w1) \<Rightarrow>
          (case process of
             PopenRaises msg \<Rightarrow> Some (handle_exception wd msg (clk 1) w1)
           | Popen behaviour \<Rightarrow>
               (case monitor clk behaviour 1 w1 of
                  None \<Rightarrow> None
                | Some (Raised msg, n, w2) \<Rightarrow> Some (handle_exception wd msg (clk n) w2)
                | Some (Exited returncode, n, w2) \<Rightarrow>
                    Some (Finished, final_status wd status returncode (clk n) w2))))"

text \<open>The initialisation of the status file when the program is run as a script.\<close>

definition startup :: "string \<Rightarrow> world \<Rightarrow> world" where
  "startup wd w =
     (if files w (STATUS_FILE wd) = None
      then w\<lparr>files := save_json_file (files w) (STATUS_FILE wd) (JObj [(''state'', JStr ''idle'')])\<rparr>
      else w)"

section \<open>The event stream\<close>

text \<open>
  One message of the stream \<^verbatim>\<open>GET /api/events\<close>: the text
  \<^verbatim>\<open>data: \<close> followed by \<^verbatim>\<open>json.dumps\<close> of the value and an empty line.
\<close>

datatype frame = SSE json

definition heartbeat :: json where
  "heartbeat = JObj [(''type'', JStr ''heartbeat'')]"


text \<open>What one round of \<^verbatim>\<open>generate()\<close> yields, from the outcome of the call of \<^verbatim>\<open>get\<close>.\<close>

definition yield_frame :: "json option \<Rightarrow> frame" where
  "yield_frame got = (case got of Some update \<Rightarrow> SSE update | None \<Rightarrow> SSE heartbeat)"









text \<open>
  The same call with time made explicit, for one consumer. The items that will reach it
  are listed in queue order, each with the time at which it is put; an item put by
  \<open>now\<close> is already waiting. The call returns the oldest item as soon as it is there,
  and raises \<^verbatim>\<open>queue.Empty\<close> when \<open>timeout\<close> units have passed without one. The result
  is the outcome, the time of the return and the items still to come.
\<close>

definition queue_get_timed ::
  "nat \<Rightarrow> nat \<Rightarrow> (nat \<times> json) list \<Rightarrow> json option \<times> nat \<times> (nat \<times> json) list" where
  "queue_get_timed timeout now pending =
     (case pending of
        [] \<Rightarrow> (None, now + timeout, [])
      | (t, item) # rest \<Rightarrow>
          if t < now + timeout then (Some item, max t now, rest)
          else (None, now + timeout, pending))"

text \<open>
  The generator \<^verbatim>\<open>generate()\<close> of \<^verbatim>\<open>get_events\<close>: the first \<open>n\<close> frames that a client
  pulls from it, each with the time at which it is yielded. The generator takes no time
  between a yield and the next call of \<^verbatim>\<open>get\<close>.
\<close>

fun generate :: "nat \<Rightarrow> nat \<Rightarrow> (nat \<times> json) list \<Rightarrow> (nat \<times> frame) list" where
  "generate 0 now pending = []"
| "generate (Suc n) now pending =
     (case queue_get_timed 30 now pending of
        (got, t, pending') \<Rightarrow> (t, yield_frame got) # generate n t pending')"

section \<open>Notions used in the statements\<close>

text \<open>
  The exit code with which the monitoring loop leaves, for a behaviour of the process
  that reaches its exit without an exception.
\<close>

fun exit_code :: "readline list \<Rightarrow> int option" where
  "exit_code [] = None"
| "exit_code (ReadRaises msg # rest) = None"
| "exit_code (Readline output poll # rest) =
     (if output = [] then (case poll of Some returncode \<Rightarrow> Some returncode | None \<Rightarrow> exit_code rest)
      else exit_code rest)"

text \<open>An entry of the transfers list counts as a success when its flag is truthy.\<close>

definition has_success :: "json \<Rightarrow> bool" where
  "has_success t = (case field t ''success'' of Some flag \<Rightarrow> truthy flag | None \<Rightarrow> False)"

text \<open>A file is missing for a reader when it does not exist or cannot be read.\<close>

definition missing :: "filesystem \<Rightarrow> string \<Rightarrow> bool" where
  "missing fs path = (case fs path of Some (Document j) \<Rightarrow> False | _ \<Rightarrow> True)"

text \<open>A clock that never runs backwards.\<close>

definition monotone_clock :: "(nat \<Rightarrow> rat) \<Rightarrow> bool" where
  "monotone_clock clk = (\<forall>i j. i \<le> j \<longrightarrow> clk i \<le> clk j)"

text \<open>Concrete data for the examples: the default workspace, an empty world, a clock.\<close>

definition default_dir :: string where
  "default_dir = ''/opt/storage-migration''"

definition empty_world :: world where
  "empty_world = \<lparr>files = Map.empty, update_queue = [], threads = []\<rparr>"

definition status_world :: "json \<Rightarrow> world" where
  "status_world status =
     \<lparr>files = [STATUS_FILE default_dir \<mapsto> Document status], update_queue = [], threads = []\<rparr>"

definition metrics_world :: "json \<Rightarrow> world" where
  "metrics_world metrics =
     \<lparr>files = [METRICS_FILE default_dir \<mapsto> Document metrics], update_queue = [], threads = []\<rparr>"

definition running_world :: world where
  "running_world =
     (status_world (JObj [(''state'', JStr ''running''), (''source'', JStr ''/a''),
                          (''target'', JStr ''/b''), (''start_time'', JFloat 5)]))
       \<lparr>threads := [(JStr ''/a'', JStr ''/b'')]\<rparr>"

definition seconds :: "nat \<Rightarrow> rat" where
  "seconds n = rat_of_nat n"

text \<open>A clock that is set back by five units after its first reading.\<close>

definition set_back :: "nat \<Rightarrow> rat" where
  "set_back n = (if n = 0 then 10 else 5)"

section \<open>Reading and writing files\<close>

lemma load_after_save:
  "load_json_file (save_json_file fs p j) p dflt = j"
  by (simp add: load_json_file_def save_json_file_def)

lemma save_twice:
  "save_json_file (save_json_file fs p j) p j' = save_json_file fs p j'"
  by (simp add: save_json_file_def)

lemma read_status_saved:
  "read_status wd (w\<lparr>files := save_json_file (files w) (STATUS_FILE wd) j\<rparr>) = j"
  by (simp add: read_status_def load_after_save)

lemma is_dict_obtain:
  assumes "is_dict j"
  obtains d where "j = JObj d"
  using assms by (cases j) simp_all

section \<open>Stop\<close>

lemma stop_migration_dict:
  assumes "read_status wd w = JObj d"
  shows "stop_migration wd w =
           Inr (Response 200 (JObj [(''status'', JStr ''stopping''),
                                    (''message'', JStr ''Migration is being stopped'')]),
                w\<lparr>files := save_json_file (files w) (STATUS_FILE wd)
                              (JObj (AList.update ''state'' (JStr ''stopping'') d))\<rparr>)"
  using assms by (simp add: stop_migration_def read_status_def)

lemma stop_after_stop:
  assumes "read_status wd w = JObj d"
    and "w1 = w\<lparr>files := save_json_file (files w) (STATUS_FILE wd)
                              (JObj (AList.update ''state'' (JStr ''stopping'') d))\<rparr>"
  shows "stop_migration wd w1 = Inr (Response 200 (JObj [(''status'', JStr ''stopping''),
                                    (''message'', JStr ''Migration is being stopped'')]), w1)"
proof -
  have "read_status wd w1 = JObj (AList.update ''state'' (JStr ''stopping'') d)"
    unfolding assms(2) by (rule read_status_saved)
  from stop_migration_dict [OF this] show ?thesis
    by (simp add: assms(2) save_twice)
qed

lemma stop_fixed:
  assumes "stop_migration wd w1 = Inr (r, w1)"
  shows "stop_repeatedly n wd w1 = Inr w1"
  using assms by (induction n) simp_all

text \<open>
  C9. Stop is idempotent. Whenever the status store holds a record (a JSON object) or
  no readable file at all, a call of Stop raises nothing and leaves the state
  \<open>stopping\<close>; any number of further calls raise nothing either and leave the world
  exactly as the first call left it.
\<close>

theorem stop_idempotent:
  assumes "is_dict (read_status wd w)"
  shows "\<exists>r w1. stop_migration wd w = Inr (r, w1)
           \<and> field (read_status wd w1) ''state'' = Some (JStr ''stopping'')
           \<and> stop_migration wd w1 = Inr (r, w1)
           \<and> (\<forall>n. stop_repeatedly (Suc n) wd w = Inr w1)"
proof -
  from assms obtain d where d: "read_status wd w = JObj d"
    by (rule is_dict_obtain)
  define r where "r = Response 200 (JObj [(''status'', JStr ''stopping''),
                                    (''message'', JStr ''Migration is being stopped'')])"
  define w1 where "w1 = w\<lparr>files := save_json_file (files w) (STATUS_FILE wd)
                              (JObj (AList.update ''state'' (JStr ''stopping'') d))\<rparr>"
  have first: "stop_migration wd w = Inr (r, w1)"
    using stop_migration_dict [OF d] by (simp add: r_def w1_def)
  have again: "stop_migration wd w1 = Inr (r, w1)"
    using stop_after_stop [OF d w1_def] by (simp add: r_def)
  have st: "field (read_status wd w1) ''state'' = Some (JStr ''stopping'')"
    by (simp add: w1_def read_status_saved update_conv')
  have "stop_repeatedly (Suc n) wd w = Inr w1" for n
    using first stop_fixed [OF again, of n] by simp
  with first again st show ?thesis by blast
qed

theorem stop_idempotent_witness:
  "is_dict (read_status default_dir (status_world (JObj [(''state'', JStr ''running'')])))
   \<and> (\<exists>r w1. stop_migration default_dir (status_world (JObj [(''state'', JStr ''running'')])) = Inr (r, w1)
          \<and> field (read_status default_dir w1) ''state'' = Some (JStr ''stopping'')
          \<and> stop_repeatedly 3 default_dir (status_world (JObj [(''state'', JStr ''running'')])) = Inr w1)"
proof -
  have h: "is_dict (read_status default_dir (status_world (JObj [(''state'', JStr ''running'')])))"
    by (simp add: read_status_def load_json_file_def status_world_def)
  from stop_idempotent [OF h] obtain r w1 where
    "stop_migration default_dir (status_world (JObj [(''state'', JStr ''running'')])) = Inr (r, w1)"
    "field (read_status default_dir w1) ''state'' = Some (JStr ''stopping'')"
    "\<forall>n. stop_repeatedly (Suc n) default_dir (status_world (JObj [(''state'', JStr ''running'')])) = Inr w1"
    by blast
  moreover from this(3) have
    "stop_repeatedly 3 default_dir (status_world (JObj [(''state'', JStr ''running'')])) = Inr w1"
    by (simp only: eval_nat_numeral)
  ultimately show ?thesis using h by blast
qed

text \<open>
  C10. Stop changes the \<open>state\<close> entry of the status record and nothing else: every
  other entry of the record, whatever a previous run left there, reads as before; no
  other file, the queue and the list of threads are untouched.
\<close>

theorem stop_changes_state_only:
  assumes "is_dict (read_status wd w)"
  shows "\<exists>r w1. stop_migration wd w = Inr (r, w1)
           \<and> (\<forall>key. key \<noteq> ''state'' \<longrightarrow>
                  field (read_status wd w1) key = field (read_status wd w) key)
           \<and> (\<forall>path. path \<noteq> STATUS_FILE wd \<longrightarrow> files w1 path = files w path)
           \<and> update_queue w1 = update_queue w \<and> threads w1 = threads w"
proof -
  from assms obtain d where d: "read_status wd w = JObj d"
    by (rule is_dict_obtain)
  define w1 where "w1 = w\<lparr>files := save_json_file (files w) (STATUS_FILE wd)
                              (JObj (AList.update ''state'' (JStr ''stopping'') d))\<rparr>"
  have "field (read_status wd w1) key = field (read_status wd w) key" if "key \<noteq> ''state''" for key
    using that by (simp add: w1_def read_status_saved d update_conv')
  moreover have "files w1 path = files w path" if "path \<noteq> STATUS_FILE wd" for path
    using that by (simp add: w1_def save_json_file_def)
  moreover have "update_queue w1 = update_queue w" "threads w1 = threads w"
    by (simp_all add: w1_def)
  ultimately show ?thesis
    using stop_migration_dict [OF d] unfolding w1_def [symmetric] by blast
qed

theorem stop_changes_state_only_witness:
  "is_dict (read_status default_dir (status_world (JObj
      [(''state'', JStr ''failed''), (''source'', JStr ''/a''), (''target'', JStr ''/b''),
       (''start_time'', JFloat 10), (''error'', JStr ''boom'')])))
   \<and> (\<exists>r w1. stop_migration default_dir (status_world (JObj
      [(''state'', JStr ''failed''), (''source'', JStr ''/a''), (''target'', JStr ''/b''),
       (''start_time'', JFloat 10), (''error'', JStr ''boom'')])) = Inr (r, w1)
        \<and> field (read_status default_dir w1) ''error'' = Some (JStr ''boom'')
        \<and> field (read_status default_dir w1) ''start_time'' = Some (JFloat 10)
        \<and> field (read_status default_dir w1) ''end_time'' = None)"
proof -
  define w where "w = status_world (JObj
      [(''state'', JStr ''failed''), (''source'', JStr ''/a''), (''target'', JStr ''/b''),
       (''start_time'', JFloat 10), (''error'', JStr ''boom'')])"
  have rd: "read_status default_dir w = JObj
      [(''state'', JStr ''failed''), (''source'', JStr ''/a''), (''target'', JStr ''/b''),
       (''start_time'', JFloat 10), (''error'', JStr ''boom'')]"
    by (simp add: w_def read_status_def load_json_file_def status_world_def)
  then have h: "is_dict (read_status default_dir w)" by simp
  from stop_changes_state_only [OF h] obtain r w1 where
    s: "stop_migration default_dir w = Inr (r, w1)"
    and k: "\<forall>key. key \<noteq> ''state'' \<longrightarrow>
              field (read_status default_dir w1) key = field (read_status default_dir w) key"
    by blast
  have "field (read_status default_dir w1) ''error'' = Some (JStr ''boom'')"
    "field (read_status default_dir w1) ''start_time'' = Some (JFloat 10)"
    "field (read_status default_dir w1) ''end_time'' = None"
    using k by (simp_all add: rd)
  with s h show ?thesis unfolding w_def by blast
qed

section \<open>Rounding\<close>

lemma of_int_bitlen_bounds:
  assumes "0 < p"
  shows "power_int 2 (bitlen p - 1) \<le> (of_int p :: rat)" and "(of_int p :: rat) < power_int 2 (bitlen p)"
proof -
  from bitlen_bounds [OF assms] have l: "2 ^ nat (bitlen p - 1) \<le> p" and u: "p < 2 ^ nat (bitlen p)"
    by simp_all
  have b: "1 \<le> bitlen p"
    using assms bitlen_eq_zero_iff [of p] bitlen_nonneg [of p] by linarith
  from l have "(of_int (2 ^ nat (bitlen p - 1)) :: rat) \<le> of_int p"
    by (simp only: of_int_le_iff)
  then show "power_int 2 (bitlen p - 1) \<le> (of_int p :: rat)"
    using b by (simp add: power_int_def)
  from u have "(of_int p :: rat) < of_int (2 ^ nat (bitlen p))"
    by (simp only: of_int_less_iff)
  then show "(of_int p :: rat) < power_int 2 (bitlen p)"
    using b by (simp add: power_int_def)
qed

lemma exponent_bounds:
  assumes "0 < x"
  shows "power_int 2 (exponent x) \<le> x" and "x < power_int 2 (exponent x + 1)"
proof -
  obtain p q where pq: "quotient_of x = (p, q)"
    by (cases "quotient_of x")
  then have q: "0 < q" and x: "x = of_int p / of_int q"
    by (simp_all add: quotient_of_denom_pos quotient_of_div)
  with assms have p: "0 < p"
    by (simp add: zero_less_divide_iff)
  define e where "e = bitlen p - bitlen q"
  have two: "(0::rat) < power_int 2 n" for n
    by (simp add: zero_less_power_int)
  have lo: "power_int 2 (e - 1) \<le> x"
  proof -
    have "power_int 2 (e - 1) * of_int q \<le> power_int 2 (e - 1) * (power_int 2 (bitlen q) :: rat)"
      using of_int_bitlen_bounds(2) [OF q] two [of "e - 1"] by (simp add: less_imp_le)
    also have "\<dots> = power_int 2 (bitlen p - 1)"
      by (simp add: e_def power_int_add [symmetric])
    also have "\<dots> \<le> of_int p"
      by (rule of_int_bitlen_bounds(1) [OF p])
    finally show ?thesis
      using q by (simp add: x pos_le_divide_eq)
  qed
  have hi: "x < power_int 2 (e + 1)"
  proof -
    have "(of_int p :: rat) < power_int 2 (bitlen p)"
      by (rule of_int_bitlen_bounds(2) [OF p])
    also have "\<dots> = power_int 2 (e + 1) * power_int 2 (bitlen q - 1)"
      by (simp add: e_def power_int_add [symmetric])
    also have "\<dots> \<le> power_int 2 (e + 1) * of_int q"
      using of_int_bitlen_bounds(1) [OF q] two [of "e + 1"] by simp
    finally show ?thesis
      using q by (simp add: x pos_divide_less_eq)
  qed
  have ex: "exponent x = (if power_int 2 e \<le> x then e else e - 1)"
    by (simp add: exponent_def pq e_def Let_def)
  show "power_int 2 (exponent x) \<le> x"
    using lo by (simp add: ex)
  show "x < power_int 2 (exponent x + 1)"
    using hi by (auto simp: ex)
qed

lemma round_half_even_error:
  "\<bar>of_int (round_half_even m) - m\<bar> \<le> 1 / 2"
proof -
  have "of_int \<lfloor>m\<rfloor> \<le> m" "m < of_int \<lfloor>m\<rfloor> + 1"
    by linarith+
  then show ?thesis
    by (auto simp: round_half_even_def Let_def abs_le_iff)
qed

lemma round_double_error:
  assumes "power_int 2 (- 1022) \<le> x"
  shows "\<bar>round_double x - x\<bar> \<le> x / 2 ^ 53"
proof -
  have x: "0 < x"
    using assms zero_less_power_int [of "2::rat" "- 1022"] by linarith
  define e where "e = exponent x"
  define ulp :: rat where "ulp = power_int 2 (e - 52)"
  have lo: "power_int 2 e \<le> x" and hi: "x < power_int 2 (e + 1)"
    using exponent_bounds [OF x] by (simp_all add: e_def)
  have "- 1022 < e + 1"
  proof (rule ccontr)
    assume "\<not> - 1022 < e + 1"
    then have "e + 1 \<le> - 1022"
      by simp
    then have "power_int (2::rat) (e + 1) \<le> power_int 2 (- 1022)"
      by (intro power_int_increasing) simp_all
    with assms hi show False
      by linarith
  qed
  then have m: "max e (- 1022) = e"
    by simp
  have u: "0 < ulp"
    by (simp add: ulp_def zero_less_power_int)
  have r: "round_double x = of_int (round_half_even (x / ulp)) * ulp"
    using x m by (simp add: round_double_def Let_def e_def [symmetric] ulp_def)
  have "round_double x - x = (of_int (round_half_even (x / ulp)) - x / ulp) * ulp"
    using u by (simp add: r left_diff_distrib)
  then have "\<bar>round_double x - x\<bar> = \<bar>of_int (round_half_even (x / ulp)) - x / ulp\<bar> * ulp"
    using u by (simp add: abs_mult)
  also have "\<dots> \<le> 1 / 2 * ulp"
    using round_half_even_error [of "x / ulp"] u by (intro mult_right_mono) simp_all
  also have "\<dots> = power_int 2 e / 2 ^ 53"
    by (simp add: ulp_def power_int_diff)
  also have "\<dots> \<le> x / 2 ^ 53"
    using lo by (simp add: divide_right_mono)
  finally show ?thesis .
qed

lemma round_double_zero: "round_double 0 = 0"
  by (simp add: round_double_def Let_def)

lemma small_exponent: "(64::nat) \<le> 1022"
  by simp

lemma tiny_le_ratio:
  fixes k n :: nat
  assumes "0 < k" and "k \<le> n" and "n < 2 ^ 64"
  shows "power_int 2 (- 1022) \<le> rat_of_nat k / rat_of_nat n"
proof -
  have n: "0 < rat_of_nat n"
    using assms by simp
  have "rat_of_nat n < rat_of_nat (2 ^ 64)"
    using assms(3) by (simp only: of_nat_less_iff)
  then have "rat_of_nat n \<le> 2 ^ 64"
    by simp
  also have "(2::rat) ^ 64 \<le> 2 ^ 1022"
    by (rule power_increasing [OF small_exponent]) simp
  finally have le: "rat_of_nat n \<le> 2 ^ 1022" .
  have "power_int (2::rat) (- 1022) = inverse (2 ^ 1022)"
    by (simp only: power_int_minus power_int_numeral)
  also have "\<dots> \<le> inverse (rat_of_nat n)"
    using le n by (rule le_imp_inverse_le)
  also have "\<dots> = 1 / rat_of_nat n"
    by (rule inverse_eq_divide)
  also have "\<dots> \<le> rat_of_nat k / rat_of_nat n"
    using assms(1) n by (intro divide_right_mono) simp_all
  finally show ?thesis .
qed

lemma success_rate_error:
  fixes k n :: nat
  assumes "0 < k" and "k \<le> n" and "n < 2 ^ 64"
  shows "\<bar>round_double (round_double (rat_of_nat k / rat_of_nat n) * 100)
           - rat_of_nat k / rat_of_nat n * 100\<bar>
         \<le> rat_of_nat k / rat_of_nat n * 100 / 2 ^ 51"
proof -
  define c :: rat where "c = power_int 2 (- 1022)"
  define q where "q = rat_of_nat k / rat_of_nat n"
  define a where "a = round_double q"
  define b where "b = round_double (a * 100)"
  define u :: rat where "u = 1 / 2 ^ 53"
  have c: "0 < c"
    by (simp add: c_def zero_less_power_int)
  have cq: "c \<le> q"
    unfolding c_def q_def by (rule tiny_le_ratio [OF assms])
  then have q: "0 < q"
    using c by linarith
  have u: "0 < u" "u \<le> 1 / 2"
    by (simp_all add: u_def)
  define d where "d = q * u"
  have ea: "\<bar>a - q\<bar> \<le> d"
    using round_double_error [of q] cq by (simp add: a_def c_def u_def d_def)
  have "q * u \<le> q * (1 / 2)"
    using q u by (intro mult_left_mono) simp_all
  then have d: "0 < d" "d \<le> q / 2"
    using q u by (simp_all add: d_def)
  with ea have a1: "q / 2 \<le> a" and a2: "a \<le> 2 * q"
    by (simp_all add: abs_le_iff)
  have "c \<le> a * 100"
    using cq a1 q by linarith
  then have eb: "\<bar>b - a * 100\<bar> \<le> a * 100 * u"
    using round_double_error [of "a * 100"] by (simp add: b_def c_def u_def)
  have "a * 100 * u \<le> (2 * q) * 100 * u"
    using a2 u by (intro mult_right_mono) simp_all
  also have "\<dots> = 200 * d"
    by (simp add: d_def)
  finally have eb': "\<bar>b - a * 100\<bar> \<le> 200 * d"
    using eb by linarith
  have "b - q * 100 = (b - a * 100) + 100 * (a - q)"
    by simp
  then have "\<bar>b - q * 100\<bar> \<le> \<bar>b - a * 100\<bar> + \<bar>100 * (a - q)\<bar>"
    by (simp only: abs_triangle_ineq)
  also have "\<bar>100 * (a - q)\<bar> = 100 * \<bar>a - q\<bar>"
    unfolding abs_mult by simp
  finally have "\<bar>b - q * 100\<bar> \<le> \<bar>b - a * 100\<bar> + 100 * \<bar>a - q\<bar>" .
  also have "\<dots> \<le> 200 * d + 100 * d"
  proof (rule add_mono)
    show "\<bar>b - a * 100\<bar> \<le> 200 * d"
      by (rule eb')
    show "100 * \<bar>a - q\<bar> \<le> 100 * d"
      using ea by simp
  qed
  also have "\<dots> \<le> 400 * d"
    using d by simp
  also have "\<dots> = q * 100 / 2 ^ 51"
    by (simp add: d_def u_def)
  finally show ?thesis
    by (simp add: b_def a_def q_def)
qed

text \<open>
  Two values of the source's expression: Python prints them as \<^verbatim>\<open>55.00000000000001\<close>
  and \<^verbatim>\<open>66.66666666666666\<close>.
\<close>

lemma round_double_examples:
  "round_double (round_double (11 / 20) * 100) = 7740561859543041 / 140737488355328"
  "round_double (round_double (2 / 3) * 100) = 2345624805922133 / 35184372088832"
  by code_simp+

section \<open>Reading a missing file\<close>

lemma load_missing:
  assumes "missing fs path"
  shows "load_json_file fs path JNull = JObj []"
  using assms
  by (auto simp: missing_def load_json_file_def split: option.splits file_content.splits)

lemma get_transfers_missing:
  assumes "missing (files w) (METRICS_FILE wd)"
  shows "get_transfers wd w =
           Inr (Response 200 (JObj [(''transfers'', JList []), (''total_count'', JInt 0),
                                    (''success_rate'', JFloat 0)]))"
  by (simp add: get_transfers_def load_missing [OF assms] dict_get_def round_double_zero)

text \<open>
  C8 as the code has it. A read of a file that is absent or unreadable raises nothing
  and returns the empty document. So the status, metrics and transfers endpoints answer
  with status 200 and empty or default documents when their files are missing. The
  record whose state is \<open>idle\<close> is what the start of the program writes when there is
  no status file.
\<close>

theorem missing_file_reads_empty:
  "(missing (files w) (STATUS_FILE wd) \<longrightarrow>
      read_status wd w = JObj []
      \<and> get_status wd system_metrics now w =
          Response 200 (JObj [(''status'', JObj []), (''system_metrics'', system_metrics),
                              (''timestamp'', JStr now)]))
   \<and> (missing (files w) (METRICS_FILE wd) \<and> missing (files w) (PREDICTIONS_FILE wd) \<longrightarrow>
      get_metrics wd system_metrics w =
          Response 200 (JObj [(''historical'', JObj []), (''predictions'', JObj []),
                              (''current'', system_metrics)]))
   \<and> (missing (files w) (METRICS_FILE wd) \<longrightarrow>
      get_transfers wd w =
          Inr (Response 200 (JObj [(''transfers'', JList []), (''total_count'', JInt 0),
                                   (''success_rate'', JFloat 0)])))
   \<and> (files w (STATUS_FILE wd) = None \<longrightarrow>
      read_status wd (startup wd w) = JObj [(''state'', JStr ''idle'')])"
proof (intro conjI impI)
  assume m: "missing (files w) (STATUS_FILE wd)"
  show "read_status wd w = JObj []"
    by (simp add: read_status_def load_missing [OF m])
  show "get_status wd system_metrics now w =
          Response 200 (JObj [(''status'', JObj []), (''system_metrics'', system_metrics),
                              (''timestamp'', JStr now)])"
    by (simp add: get_status_def load_missing [OF m])
next
  assume "missing (files w) (METRICS_FILE wd) \<and> missing (files w) (PREDICTIONS_FILE wd)"
  then show "get_metrics wd system_metrics w =
          Response 200 (JObj [(''historical'', JObj []), (''predictions'', JObj []),
                              (''current'', system_metrics)])"
    by (simp add: get_metrics_def load_missing)
next
  assume "missing (files w) (METRICS_FILE wd)"
  then show "get_transfers wd w =
          Inr (Response 200 (JObj [(''transfers'', JList []), (''total_count'', JInt 0),
                                   (''success_rate'', JFloat 0)]))"
    by (rule get_transfers_missing)
next
  assume "files w (STATUS_FILE wd) = None"
  then show "read_status wd (startup wd w) = JObj [(''state'', JStr ''idle'')]"
    by (simp add: startup_def read_status_def load_json_file_def save_json_file_def)
qed

theorem missing_file_reads_empty_witness:
  "missing (files empty_world) (STATUS_FILE default_dir)
   \<and> missing (files empty_world) (METRICS_FILE default_dir)
   \<and> missing (files empty_world) (PREDICTIONS_FILE default_dir)
   \<and> files empty_world (STATUS_FILE default_dir) = None
   \<and> read_status default_dir empty_world = JObj []
   \<and> status_code (get_status default_dir JNull ''2024-01-01T00:00:00'' empty_world) = 200
   \<and> status_code (get_metrics default_dir JNull empty_world) = 200
   \<and> get_transfers default_dir empty_world =
        Inr (Response 200 (JObj [(''transfers'', JList []), (''total_count'', JInt 0),
                                 (''success_rate'', JFloat 0)]))
   \<and> read_status default_dir (startup default_dir empty_world) = JObj [(''state'', JStr ''idle'')]"
proof -
  have m: "missing (files empty_world) p" for p
    by (simp add: missing_def empty_world_def)
  have n: "files empty_world (STATUS_FILE default_dir) = None"
    by (simp add: empty_world_def)
  show ?thesis
    using missing_file_reads_empty [of empty_world default_dir JNull "''2024-01-01T00:00:00''"] m n
    by (simp add: status_code_def)
qed

text \<open>
  C8 as stated fails: with no status file, and with an unreadable one, a read returns
  the empty document, which has no \<open>state\<close> entry, not the record with state \<open>idle\<close>.
\<close>

theorem read_default_counterexample:
  "read_status default_dir empty_world = JObj []
   \<and> field (read_status default_dir empty_world) ''state'' = None
   \<and> read_status default_dir empty_world \<noteq> JObj [(''state'', JStr ''idle'')]
   \<and> read_status default_dir
        (empty_world\<lparr>files := [STATUS_FILE default_dir \<mapsto> Unreadable]\<rparr>) = JObj []"
  by (simp add: read_status_def load_json_file_def empty_world_def)

section \<open>Transfers\<close>

lemma has_success_dict:
  "has_success (JObj d) = truthy (dict_get d ''success'' JNull)"
  by (simp add: has_success_def dict_get_def split: option.splits)

lemma count_success_dicts:
  assumes "\<forall>t \<in> set ts. is_dict t"
  shows "count_success ts = Inr (length (filter has_success ts))"
  using assms
proof (induction ts)
  case Nil
  then show ?case by simp
next
  case (Cons t ts)
  then obtain d where d: "t = JObj d"
    by (cases t) simp_all
  from Cons have "count_success ts = Inr (length (filter has_success ts))"
    by simp
  then show ?case
    by (simp add: d has_success_dict)
qed

lemma get_transfers_list:
  assumes "load_json_file (files w) (METRICS_FILE wd) JNull = JObj d"
    and "dict_get d ''transfers'' (JList []) = JList ts"
    and "\<forall>t \<in> set ts. is_dict t"
  shows "get_transfers wd w =
           Inr (Response 200 (JObj
             [(''transfers'', JList ts),
              (''total_count'', JInt (int (length ts))),
              (''success_rate'',
                 JFloat (round_double
                   (round_double (rat_of_nat (length (filter has_success ts))
                                    / rat_of_nat (max (length ts) 1)) * 100)))]))"
  by (simp add: get_transfers_def assms(1,2) count_success_dicts [OF assms(3)])

text \<open>
  C6. For a metrics document whose \<open>transfers\<close> entry is a list, all of whose entries
  are JSON objects, of fewer than \<open>2 ^ 64\<close> entries, the transfers endpoint answers
  with that list, its length, and a success rate that is the floating-point value of
  the source's expression: the number of entries with a truthy success flag, divided
  by the length (by 1 for the empty list), rounded, multiplied by 100, rounded. For the
  empty list the rate is 0. For a list that is not empty the rate differs from the
  exact percentage by at most that percentage divided by \<open>2 ^ 51\<close>.
\<close>

theorem transfers_success_rate:
  assumes "load_json_file (files w) (METRICS_FILE wd) JNull = JObj d"
    and "dict_get d ''transfers'' (JList []) = JList ts"
    and "\<forall>t \<in> set ts. is_dict t"
    and "length ts < 2 ^ 64"
  shows "\<exists>rate. get_transfers wd w =
           Inr (Response 200 (JObj
             [(''transfers'', JList ts),
              (''total_count'', JInt (int (length ts))),
              (''success_rate'', JFloat rate)]))
         \<and> rate = round_double
                    (round_double (rat_of_nat (length (filter has_success ts))
                                     / rat_of_nat (max (length ts) 1)) * 100)
         \<and> (ts = [] \<longrightarrow> rate = 0)
         \<and> (ts \<noteq> [] \<longrightarrow>
               \<bar>rate - rat_of_nat (length (filter has_success ts)) / rat_of_nat (length ts) * 100\<bar>
                 \<le> rat_of_nat (length (filter has_success ts)) / rat_of_nat (length ts) * 100
                      / 2 ^ 51)"
proof -
  define k where "k = length (filter has_success ts)"
  define n where "n = length ts"
  define rate where "rate = round_double (round_double (rat_of_nat k / rat_of_nat (max n 1)) * 100)"
  have g: "get_transfers wd w =
           Inr (Response 200 (JObj
             [(''transfers'', JList ts),
              (''total_count'', JInt (int (length ts))),
              (''success_rate'', JFloat rate)]))"
    using get_transfers_list [OF assms(1,2,3)] by (simp add: rate_def k_def n_def)
  have kn: "k \<le> n"
    by (simp add: k_def n_def)
  have e: "rate = 0" if "ts = []"
    using that by (simp add: rate_def k_def n_def round_double_zero)
  have b: "\<bar>rate - rat_of_nat k / rat_of_nat n * 100\<bar> \<le> rat_of_nat k / rat_of_nat n * 100 / 2 ^ 51"
    if "ts \<noteq> []"
  proof (cases "k = 0")
    case True
    then show ?thesis
      by (simp add: rate_def round_double_zero)
  next
    case False
    from that have m: "max n 1 = n"
      by (cases ts) (simp_all add: n_def)
    from False have k: "0 < k"
      by simp
    have "n < 2 ^ 64"
      using assms(4) by (simp only: n_def)
    from success_rate_error [OF k kn this] show ?thesis
      unfolding rate_def m .
  qed
  from g e b show ?thesis
    unfolding rate_def k_def n_def by blast
qed

theorem transfers_success_rate_witness:
  "load_json_file (files (metrics_world (JObj [(''transfers'', JList
          [JObj [(''success'', JBool True)], JObj [(''success'', JBool False)],
           JObj [(''success'', JBool True)]])]))) (METRICS_FILE default_dir) JNull
     = JObj [(''transfers'', JList
          [JObj [(''success'', JBool True)], JObj [(''success'', JBool False)],
           JObj [(''success'', JBool True)]])]
   \<and> (\<exists>rate. get_transfers default_dir (metrics_world (JObj [(''transfers'', JList
          [JObj [(''success'', JBool True)], JObj [(''success'', JBool False)],
           JObj [(''success'', JBool True)]])]))
        = Inr (Response 200 (JObj
             [(''transfers'', JList
                [JObj [(''success'', JBool True)], JObj [(''success'', JBool False)],
                 JObj [(''success'', JBool True)]]),
              (''total_count'', JInt 3),
              (''success_rate'', JFloat rate)]))
        \<and> rate = 2345624805922133 / 35184372088832
        \<and> \<bar>rate - 200 / 3\<bar> \<le> 200 / 3 / 2 ^ 51
        \<and> \<bar>rate - 6667 / 100\<bar> < 1 / 100)
   \<and> get_transfers default_dir (metrics_world (JObj [(''transfers'', JList [])]))
        = Inr (Response 200 (JObj
             [(''transfers'', JList []), (''total_count'', JInt 0), (''success_rate'', JFloat 0)]))"
proof -
  define ts where "ts = [JObj [(''success'', JBool True)], JObj [(''success'', JBool False)],
           JObj [(''success'', JBool True)]]"
  define d where "d = [(''transfers'', JList ts)]"
  have l: "load_json_file (files (metrics_world (JObj d))) (METRICS_FILE default_dir) JNull = JObj d"
    by (simp add: load_json_file_def metrics_world_def)
  have g: "dict_get d ''transfers'' (JList []) = JList ts"
    by (simp add: d_def dict_get_def)
  have a: "\<forall>t \<in> set ts. is_dict t"
    by (simp add: ts_def)
  have s: "length ts < 2 ^ 64"
    by (simp add: ts_def)
  have ne: "ts \<noteq> []" by (simp add: ts_def)
  have k: "rat_of_nat (length (filter has_success ts)) = 2" "rat_of_nat (length ts) = 3"
    "rat_of_nat (max (length ts) 1) = 3" "int (length ts) = 3"
    by (simp_all add: ts_def has_success_def)
  have v: "round_double (round_double (2 / 3) * 100) = 2345624805922133 / 35184372088832"
    by code_simp
  from transfers_success_rate [OF l g a s] ne obtain rate where
    r1: "get_transfers default_dir (metrics_world (JObj d))
        = Inr (Response 200 (JObj
             [(''transfers'', JList ts), (''total_count'', JInt 3), (''success_rate'', JFloat rate)]))"
    and r2: "rate = 2345624805922133 / 35184372088832"
    and r3: "\<bar>rate - 200 / 3\<bar> \<le> 200 / 3 / 2 ^ 51"
    unfolding k v by auto
  have r4: "\<bar>rate - 6667 / 100\<bar> < 1 / 100"
    unfolding r2 by simp
  from r1 r2 r3 r4
  have 1: "\<exists>rate. get_transfers default_dir (metrics_world (JObj d))
        = Inr (Response 200 (JObj
             [(''transfers'', JList ts), (''total_count'', JInt 3), (''success_rate'', JFloat rate)]))
        \<and> rate = 2345624805922133 / 35184372088832
        \<and> \<bar>rate - 200 / 3\<bar> \<le> 200 / 3 / 2 ^ 51
        \<and> \<bar>rate - 6667 / 100\<bar> < 1 / 100"
    by blast
  define d0 where "d0 = [(''transfers'', JList [])]"
  have l0: "load_json_file (files (metrics_world (JObj d0))) (METRICS_FILE default_dir) JNull = JObj d0"
    by (simp add: load_json_file_def metrics_world_def)
  have g0: "dict_get d0 ''transfers'' (JList []) = JList []"
    by (simp add: d0_def dict_get_def)
  from transfers_success_rate [OF l0 g0]
  have 2: "get_transfers default_dir (metrics_world (JObj d0))
        = Inr (Response 200 (JObj
             [(''transfers'', JList []), (''total_count'', JInt 0), (''success_rate'', JFloat 0)]))"
    by auto
  from l 1 2 show ?thesis
    unfolding d_def d0_def ts_def by blast
qed

section \<open>Start\<close>

lemma start_migration_dict:
  "start_migration (JObj d) w =
     (if truthy (dict_get d ''source'' JNull) \<and> truthy (dict_get d ''target'' JNull)
      then Inr (Response 200 (JObj [(''status'', JStr ''started''),
                                    (''message'', JStr ''Migration started'')]),
                w\<lparr>threads := threads w @ [(dict_get d ''source'' JNull, dict_get d ''target'' JNull)]\<rparr>)
      else Inr (Response 400 (JObj [(''error'', JStr ''Source and target are required'')]), w))"
  by (simp add: start_migration_def)

text \<open>
  For a request body that is a JSON object: when the source or the target is missing
  or is the empty string, the answer is status 400 and no thread is started; when both
  are non-empty strings, a thread for the run with these arguments is started and the
  answer is the acknowledgment, given without waiting for the run.
\<close>

lemma start_object_body:
  "((map_of d ''source'' = None \<or> map_of d ''source'' = Some (JStr [])
      \<or> map_of d ''target'' = None \<or> map_of d ''target'' = Some (JStr [])) \<longrightarrow>
     start_migration (JObj d) w =
       Inr (Response 400 (JObj [(''error'', JStr ''Source and target are required'')]), w))
   \<and> ((map_of d ''source'' = Some (JStr source) \<and> source \<noteq> []
        \<and> map_of d ''target'' = Some (JStr target) \<and> target \<noteq> []) \<longrightarrow>
     start_migration (JObj d) w =
       Inr (Response 200 (JObj [(''status'', JStr ''started''),
                                (''message'', JStr ''Migration started'')]),
            w\<lparr>threads := threads w @ [(JStr source, JStr target)]\<rparr>))"
proof (intro conjI impI)
  assume "map_of d ''source'' = None \<or> map_of d ''source'' = Some (JStr [])
      \<or> map_of d ''target'' = None \<or> map_of d ''target'' = Some (JStr [])"
  then have "\<not> truthy (dict_get d ''source'' JNull) \<or> \<not> truthy (dict_get d ''target'' JNull)"
    by (auto simp: dict_get_def)
  then show "start_migration (JObj d) w =
       Inr (Response 400 (JObj [(''error'', JStr ''Source and target are required'')]), w)"
    by (auto simp: start_migration_dict)
next
  assume a: "map_of d ''source'' = Some (JStr source) \<and> source \<noteq> []
        \<and> map_of d ''target'' = Some (JStr target) \<and> target \<noteq> []"
  then have "dict_get d ''source'' JNull = JStr source" "dict_get d ''target'' JNull = JStr target"
    by (simp_all add: dict_get_def)
  with a show "start_migration (JObj d) w =
       Inr (Response 200 (JObj [(''status'', JStr ''started''),
                                (''message'', JStr ''Migration started'')]),
            w\<lparr>threads := threads w @ [(JStr source, JStr target)]\<rparr>)"
    by (simp add: start_migration_dict)
qed

lemma start_object_body_examples:
  "map_of [(''source'', JStr ''/data/old'')] ''target'' = None
   \<and> start_migration (JObj [(''source'', JStr ''/data/old'')]) empty_world =
       Inr (Response 400 (JObj [(''error'', JStr ''Source and target are required'')]), empty_world)
   \<and> map_of [(''source'', JStr ''/data/old''), (''target'', JStr [])] ''target'' = Some (JStr [])
   \<and> start_migration (JObj [(''source'', JStr ''/data/old''), (''target'', JStr [])]) empty_world =
       Inr (Response 400 (JObj [(''error'', JStr ''Source and target are required'')]), empty_world)
   \<and> start_migration (JObj [(''source'', JStr ''/data/old''), (''target'', JStr ''/data/new'')])
        empty_world =
       Inr (Response 200 (JObj [(''status'', JStr ''started''),
                                (''message'', JStr ''Migration started'')]),
            empty_world\<lparr>threads := threads empty_world @ [(JStr ''/data/old'', JStr ''/data/new'')]\<rparr>)"
  using start_object_body
          [where d = "[(''source'', JStr ''/data/old'')]" and w = empty_world]
        start_object_body
          [where d = "[(''source'', JStr ''/data/old''), (''target'', JStr [])]" and w = empty_world]
        start_object_body
          [where d = "[(''source'', JStr ''/data/old''), (''target'', JStr ''/data/new'')]"
              and w = empty_world and source = "''/data/old''" and target = "''/data/new''"]
  by simp

text \<open>
  C7. The code breaks the claim for a request body that is not a JSON object, such as
  \<^verbatim>\<open>null\<close>, a list, a string or a number. Such a body has neither a source nor a
  target, and the claim gives it the answer 400. The handler calls \<^verbatim>\<open>params.get\<close> on it
  before its own check for a missing source or target, which raises
  \<^verbatim>\<open>AttributeError\<close>: the request is answered with status 500. No thread is started.
\<close>

theorem start_non_object_body_raises:
  "start_migration JNull w = Inl AttributeError
   \<and> start_migration (JList []) w = Inl AttributeError
   \<and> start_migration (JStr ''source'') w = Inl AttributeError
   \<and> start_migration (JInt 5) w = Inl AttributeError
   \<and> start_migration (JList [JObj [(''source'', JStr ''/a''), (''target'', JStr ''/b'')]]) w
       = Inl AttributeError"
  by (simp add: start_migration_def)

theorem start_non_object_body_raises_witness:
  "start_migration JNull empty_world = Inl AttributeError
   \<and> start_migration (JList []) empty_world = Inl AttributeError
   \<and> start_migration (JStr ''source'') running_world = Inl AttributeError
   \<and> start_migration (JInt 5) running_world = Inl AttributeError"
  using start_non_object_body_raises [of empty_world] start_non_object_body_raises [of running_world]
  by simp

text \<open>
  C2 as the code has it. The handler never looks at the persisted state and knows no
  conflict: in every world, whatever the status record says and however many runs have
  been started before, a request with a truthy source and target is acknowledged and
  starts one more run.
\<close>

theorem start_accepted_in_every_state:
  assumes "truthy (dict_get d ''source'' JNull)" and "truthy (dict_get d ''target'' JNull)"
  shows "start_migration (JObj d) w =
           Inr (Response 200 (JObj [(''status'', JStr ''started''),
                                    (''message'', JStr ''Migration started'')]),
                w\<lparr>threads := threads w @ [(dict_get d ''source'' JNull, dict_get d ''target'' JNull)]\<rparr>)"
  using assms by (simp add: start_migration_dict)

theorem start_accepted_in_every_state_witness:
  "truthy (dict_get [(''source'', JStr ''/c''), (''target'', JStr ''/d'')] ''source'' JNull)
   \<and> truthy (dict_get [(''source'', JStr ''/c''), (''target'', JStr ''/d'')] ''target'' JNull)
   \<and> field (read_status default_dir running_world) ''state'' = Some (JStr ''running'')
   \<and> start_migration (JObj [(''source'', JStr ''/c''), (''target'', JStr ''/d'')]) running_world =
       Inr (Response 200 (JObj [(''status'', JStr ''started''),
                                (''message'', JStr ''Migration started'')]),
            running_world\<lparr>threads := [(JStr ''/a'', JStr ''/b''), (JStr ''/c'', JStr ''/d'')]\<rparr>)"
  using start_accepted_in_every_state
          [of "[(''source'', JStr ''/c''), (''target'', JStr ''/d'')]" running_world]
  by (simp add: dict_get_def running_world_def status_world_def read_status_def load_json_file_def)

text \<open>
  C2 as stated fails: while the record says \<open>running\<close> and one run has been started,
  and likewise while the record says \<open>stopping\<close>, a start request is acknowledged with
  status 200 and a further run is started.
\<close>

theorem start_conflict_counterexample:
  "field (read_status default_dir running_world) ''state'' = Some (JStr ''running'')
   \<and> threads running_world = [(JStr ''/a'', JStr ''/b'')]
   \<and> start_migration (JObj [(''source'', JStr ''/a''), (''target'', JStr ''/b'')]) running_world =
       Inr (Response 200 (JObj [(''status'', JStr ''started''),
                                (''message'', JStr ''Migration started'')]),
            running_world\<lparr>threads := [(JStr ''/a'', JStr ''/b''), (JStr ''/a'', JStr ''/b'')]\<rparr>)
   \<and> field (read_status default_dir (status_world (JObj [(''state'', JStr ''stopping'')]))) ''state''
       = Some (JStr ''stopping'')
   \<and> start_migration (JObj [(''source'', JStr ''/a''), (''target'', JStr ''/b'')])
         (status_world (JObj [(''state'', JStr ''stopping'')])) =
       Inr (Response 200 (JObj [(''status'', JStr ''started''),
                                (''message'', JStr ''Migration started'')]),
            (status_world (JObj [(''state'', JStr ''stopping'')]))
              \<lparr>threads := [(JStr ''/a'', JStr ''/b'')]\<rparr>)"
  by (simp add: start_migration_def dict_get_def running_world_def status_world_def
      read_status_def load_json_file_def)

section \<open>Runs\<close>

lemma monitor_exit:
  assumes "exit_code behaviour = Some returncode"
  shows "\<exists>n' w'. monitor clk behaviour n w = Some (Exited returncode, n', w')
            \<and> n \<le> n' \<and> files w' = files w \<and> threads w' = threads w"
  using assms
proof (induction behaviour arbitrary: n w)
  case Nil
  then show ?case by simp
next
  case (Cons r behaviour)
  show ?case
  proof (cases r)
    case (ReadRaises msg)
    with Cons.prems show ?thesis by simp
  next
    case (Readline out poll)
    show ?thesis
    proof (cases "out = []")
      case True
      show ?thesis
      proof (cases poll)
        case None
        with True Readline Cons.prems have "exit_code behaviour = Some returncode" by simp
        from Cons.IH [OF this, of n w] show ?thesis
          using True None Readline by simp
      next
        case (Some rc)
        with True Readline Cons.prems show ?thesis by simp
      qed
    next
      case False
      with Readline Cons.prems have "exit_code behaviour = Some returncode" by simp
      from Cons.IH [OF this, of "Suc n" "queue_put (progress_event (strip out) (clk n)) w"]
      show ?thesis
        using False Readline by (auto simp: queue_put_def)
    qed
  qed
qed

lemma read_final_status:
  "read_status wd (final_status wd (initial_status source target t0) returncode t1 w) =
     JObj [(''state'', JStr (if returncode = 0 then ''completed'' else ''failed'')),
           (''source'', source), (''target'', target),
           (''start_time'', JFloat t0), (''end_time'', JFloat t1)]"
  by (simp add: final_status_def initial_status_def read_status_saved)

lemma run_migration_exit:
  assumes "exit_code behaviour = Some returncode"
  shows "\<exists>n w'. run_migration wd clk (Popen behaviour) source target w = Some (Finished, w')
           \<and> 0 < n
           \<and> read_status wd w' =
               JObj [(''state'', JStr (if returncode = 0 then ''completed'' else ''failed'')),
                     (''source'', source), (''target'', target),
                     (''start_time'', JFloat (clk 0)), (''end_time'', JFloat (clk n))]"
proof -
  define w1 where "w1 = snd (begin_run wd source target (clk 0) w)"
  from monitor_exit [OF assms, of clk 1 w1] obtain n w2 where
    m: "monitor clk behaviour 1 w1 = Some (Exited returncode, n, w2)" and n: "1 \<le> n"
    by blast
  have "run_migration wd clk (Popen behaviour) source target w =
          Some (Finished, final_status wd (initial_status source target (clk 0)) returncode (clk n) w2)"
    using m by (simp add: run_migration_def begin_run_def Let_def w1_def)
  with n read_final_status show ?thesis
    by (metis less_eq_Suc_le One_nat_def)
qed

text \<open>
  C3 as the code has it. When the process exits, the run ends with the record of its
  start, the state \<open>completed\<close> for exit code 0 and \<open>failed\<close> for any other, and the
  end time; the record has no \<open>error\<close> entry in either case. The end time is not before
  the start time when the clock does not run backwards.
\<close>

theorem run_exit_final_status:
  assumes "exit_code behaviour = Some returncode"
  shows "\<exists>n w'. run_migration wd clk (Popen behaviour) source target w = Some (Finished, w')
           \<and> read_status wd w' =
               JObj [(''state'', JStr (if returncode = 0 then ''completed'' else ''failed'')),
                     (''source'', source), (''target'', target),
                     (''start_time'', JFloat (clk 0)), (''end_time'', JFloat (clk n))]
           \<and> field (read_status wd w') ''error'' = None
           \<and> (monotone_clock clk \<longrightarrow> clk 0 \<le> clk n)"
proof -
  from run_migration_exit [OF assms, of wd clk source target w] obtain n w' where
    r: "run_migration wd clk (Popen behaviour) source target w = Some (Finished, w')"
    and s: "read_status wd w' =
               JObj [(''state'', JStr (if returncode = 0 then ''completed'' else ''failed'')),
                     (''source'', source), (''target'', target),
                     (''start_time'', JFloat (clk 0)), (''end_time'', JFloat (clk n))]"
    by blast
  have "field (read_status wd w') ''error'' = None"
    by (simp add: s)
  moreover have "monotone_clock clk \<longrightarrow> clk 0 \<le> clk n"
    by (simp add: monotone_clock_def)
  ultimately show ?thesis using r s by blast
qed

theorem run_exit_final_status_witness:
  "exit_code [Readline ''copying'' None, Readline [] None, Readline [] (Some 0)] = Some 0
   \<and> monotone_clock seconds
   \<and> (\<exists>n w'. run_migration default_dir seconds
                 (Popen [Readline ''copying'' None, Readline [] None, Readline [] (Some 0)])
                 (JStr ''/a'') (JStr ''/b'') empty_world = Some (Finished, w')
          \<and> read_status default_dir w' =
               JObj [(''state'', JStr ''completed''), (''source'', JStr ''/a''),
                     (''target'', JStr ''/b''),
                     (''start_time'', JFloat (seconds 0)), (''end_time'', JFloat (seconds n))]
          \<and> seconds 0 \<le> seconds n)"
proof -
  have e: "exit_code [Readline ''copying'' None, Readline [] None, Readline [] (Some 0)] = Some 0"
    by simp
  have m: "monotone_clock seconds"
    by (simp add: monotone_clock_def seconds_def)
  from run_exit_final_status [OF e, of default_dir seconds "JStr ''/a''" "JStr ''/b''" empty_world] m
  have "\<exists>n w'. run_migration default_dir seconds
                 (Popen [Readline ''copying'' None, Readline [] None, Readline [] (Some 0)])
                 (JStr ''/a'') (JStr ''/b'') empty_world = Some (Finished, w')
          \<and> read_status default_dir w' =
               JObj [(''state'', JStr ''completed''), (''source'', JStr ''/a''),
                     (''target'', JStr ''/b''),
                     (''start_time'', JFloat (seconds 0)), (''end_time'', JFloat (seconds n))]
          \<and> seconds 0 \<le> seconds n"
    by auto
  with e m show ?thesis by blast
qed

text \<open>
  C3 as stated fails: after a run whose process exits with code 1 the record has the
  state \<open>failed\<close> and an end time, and no \<open>error\<close> entry. And the end time is a reading
  of the wall clock: when that is set back during the run, the end time of a completed
  run is before its start time.
\<close>

theorem nonzero_exit_counterexample:
  "run_migration default_dir seconds (Popen [Readline [] (Some 1)])
       (JStr ''/a'') (JStr ''/b'') empty_world =
     Some (Finished, status_world (JObj
       [(''state'', JStr ''failed''), (''source'', JStr ''/a''), (''target'', JStr ''/b''),
        (''start_time'', JFloat 0), (''end_time'', JFloat 1)]))
   \<and> field (read_status default_dir (status_world (JObj
       [(''state'', JStr ''failed''), (''source'', JStr ''/a''), (''target'', JStr ''/b''),
        (''start_time'', JFloat 0), (''end_time'', JFloat 1)]))) ''error'' = None
   \<and> run_migration default_dir set_back (Popen [Readline [] (Some 0)])
       (JStr ''/a'') (JStr ''/b'') empty_world =
     Some (Finished, status_world (JObj
       [(''state'', JStr ''completed''), (''source'', JStr ''/a''), (''target'', JStr ''/b''),
        (''start_time'', JFloat 10), (''end_time'', JFloat 5)]))"
  by (simp add: run_migration_def begin_run_def Let_def final_status_def initial_status_def
      save_json_file_def empty_world_def status_world_def seconds_def set_back_def
      read_status_def load_json_file_def)

section \<open>The writes of the status record\<close>

lemma handle_exception_dict:
  assumes "read_status wd w = JObj d"
  shows "handle_exception wd msg t w =
           (Failed,
            queue_put (error_event msg t)
              (w\<lparr>files := save_json_file (files w) (STATUS_FILE wd)
                   (JObj (AList.update ''error'' (JStr msg)
                            (AList.update ''state'' (JStr ''failed'') d)))\<rparr>))"
  using assms by (simp add: handle_exception_def read_status_def)

lemma read_status_queue_put:
  "read_status wd (queue_put item w) = read_status wd w"
  by (simp add: read_status_def queue_put_def)

text \<open>
  C4 as the code has it, write by write. The record written at the start of a run has
  the state \<open>running\<close> and neither an end time nor an error. The record written after
  the process has exited has the state \<open>completed\<close> or \<open>failed\<close>, an end time and no
  error. The handler of an exception writes the state \<open>failed\<close> and the error text into
  the record it reads, and queues an error event. Stop writes the state \<open>stopping\<close>
  and keeps the end time and the error that the record had.
\<close>

theorem status_writes:
  "field (read_status wd (snd (begin_run wd source target t0 w))) ''state'' = Some (JStr ''running'')
   \<and> field (read_status wd (snd (begin_run wd source target t0 w))) ''end_time'' = None
   \<and> field (read_status wd (snd (begin_run wd source target t0 w))) ''error'' = None
   \<and> field (read_status wd (final_status wd (initial_status source target t0) returncode t1 w))
        ''state'' = Some (JStr (if returncode = 0 then ''completed'' else ''failed''))
   \<and> field (read_status wd (final_status wd (initial_status source target t0) returncode t1 w))
        ''end_time'' = Some (JFloat t1)
   \<and> field (read_status wd (final_status wd (initial_status source target t0) returncode t1 w))
        ''error'' = None
   \<and> (is_dict (read_status wd w) \<longrightarrow>
        (\<exists>w'. handle_exception wd msg t w = (Failed, w')
           \<and> field (read_status wd w') ''state'' = Some (JStr ''failed'')
           \<and> field (read_status wd w') ''error'' = Some (JStr msg)
           \<and> update_queue w' = update_queue w @ [error_event msg t]))
   \<and> (is_dict (read_status wd w) \<longrightarrow>
        (\<exists>r w'. stop_migration wd w = Inr (r, w')
           \<and> field (read_status wd w') ''state'' = Some (JStr ''stopping'')
           \<and> field (read_status wd w') ''end_time'' = field (read_status wd w) ''end_time''
           \<and> field (read_status wd w') ''error'' = field (read_status wd w) ''error''))"
proof -
  have a: "field (read_status wd (snd (begin_run wd source target t0 w))) ''state'' = Some (JStr ''running'')"
    "field (read_status wd (snd (begin_run wd source target t0 w))) ''end_time'' = None"
    "field (read_status wd (snd (begin_run wd source target t0 w))) ''error'' = None"
    by (simp_all add: begin_run_def Let_def read_status_saved initial_status_def)
  have b: "field (read_status wd (final_status wd (initial_status source target t0) returncode t1 w))
        ''state'' = Some (JStr (if returncode = 0 then ''completed'' else ''failed''))"
    "field (read_status wd (final_status wd (initial_status source target t0) returncode t1 w))
        ''end_time'' = Some (JFloat t1)"
    "field (read_status wd (final_status wd (initial_status source target t0) returncode t1 w))
        ''error'' = None"
    by (simp_all add: read_final_status)
  have c: "\<exists>w'. handle_exception wd msg t w = (Failed, w')
           \<and> field (read_status wd w') ''state'' = Some (JStr ''failed'')
           \<and> field (read_status wd w') ''error'' = Some (JStr msg)
           \<and> update_queue w' = update_queue w @ [error_event msg t]"
    if "is_dict (read_status wd w)"
  proof -
    from that obtain d where d: "read_status wd w = JObj d"
      by (rule is_dict_obtain)
    show ?thesis
      unfolding handle_exception_dict [OF d]
      by (simp add: read_status_queue_put read_status_saved update_conv')
         (simp add: queue_put_def)
  qed
  have e: "\<exists>r w'. stop_migration wd w = Inr (r, w')
           \<and> field (read_status wd w') ''state'' = Some (JStr ''stopping'')
           \<and> field (read_status wd w') ''end_time'' = field (read_status wd w) ''end_time''
           \<and> field (read_status wd w') ''error'' = field (read_status wd w) ''error''"
    if "is_dict (read_status wd w)"
  proof -
    from that obtain d where d: "read_status wd w = JObj d"
      by (rule is_dict_obtain)
    show ?thesis
      unfolding stop_migration_dict [OF d]
      by (simp add: read_status_saved update_conv' d)
  qed
  from a b c e show ?thesis by blast
qed


theorem status_writes_witness:
  "is_dict (read_status default_dir running_world)
   \<and> field (read_status default_dir
         (snd (begin_run default_dir (JStr ''/c'') (JStr ''/d'') 7 running_world))) ''state''
        = Some (JStr ''running'')
   \<and> field (read_status default_dir
         (final_status default_dir (initial_status (JStr ''/c'') (JStr ''/d'') 7) 3 9 running_world))
         ''state'' = Some (JStr ''failed'')
   \<and> (\<exists>w'. handle_exception default_dir ''boom'' 8 running_world = (Failed, w')
          \<and> field (read_status default_dir w') ''state'' = Some (JStr ''failed'')
          \<and> field (read_status default_dir w') ''error'' = Some (JStr ''boom'')
          \<and> update_queue w' = update_queue running_world @ [error_event ''boom'' 8])
   \<and> (\<exists>r w'. stop_migration default_dir running_world = Inr (r, w')
          \<and> field (read_status default_dir w') ''state'' = Some (JStr ''stopping'')
          \<and> field (read_status default_dir w') ''end_time'' = None
          \<and> field (read_status default_dir w') ''error'' = None)"
proof -
  have rd: "read_status default_dir running_world =
      JObj [(''state'', JStr ''running''), (''source'', JStr ''/a''),
            (''target'', JStr ''/b''), (''start_time'', JFloat 5)]"
    by (simp add: running_world_def status_world_def read_status_def load_json_file_def)
  then have h: "is_dict (read_status default_dir running_world)"
    by simp
  note t = status_writes [where wd = default_dir and w = running_world and source = "JStr ''/c''"
      and target = "JStr ''/d''" and ?t0.0 = 7 and returncode = 3 and ?t1.0 = 9
      and msg = "''boom''" and t = 8]
  from t have 1: "field (read_status default_dir
         (snd (begin_run default_dir (JStr ''/c'') (JStr ''/d'') 7 running_world))) ''state''
        = Some (JStr ''running'')"
    by blast
  from t have 2: "field (read_status default_dir
         (final_status default_dir (initial_status (JStr ''/c'') (JStr ''/d'') 7) 3 9 running_world))
         ''state'' = Some (JStr ''failed'')"
    by simp
  from t h have 3: "\<exists>w'. handle_exception default_dir ''boom'' 8 running_world = (Failed, w')
          \<and> field (read_status default_dir w') ''state'' = Some (JStr ''failed'')
          \<and> field (read_status default_dir w') ''error'' = Some (JStr ''boom'')
          \<and> update_queue w' = update_queue running_world @ [error_event ''boom'' 8]"
    by blast
  from t h have "\<exists>r w'. stop_migration default_dir running_world = Inr (r, w')
          \<and> field (read_status default_dir w') ''state'' = Some (JStr ''stopping'')
          \<and> field (read_status default_dir w') ''end_time''
               = field (read_status default_dir running_world) ''end_time''
          \<and> field (read_status default_dir w') ''error''
               = field (read_status default_dir running_world) ''error''"
    by blast
  then have 4: "\<exists>r w'. stop_migration default_dir running_world = Inr (r, w')
          \<and> field (read_status default_dir w') ''state'' = Some (JStr ''stopping'')
          \<and> field (read_status default_dir w') ''end_time'' = None
          \<and> field (read_status default_dir w') ''error'' = None"
    by (simp add: rd)
  from h 1 2 3 4 show ?thesis by blast
qed

text \<open>
  C4 as stated fails. A run whose process exits with code 0 leaves a completed record
  with an end time; Stop then writes the state \<open>stopping\<close> over it and keeps the end
  time, so a record with an end time has a state that is neither \<open>completed\<close> nor
  \<open>failed\<close>.
\<close>

theorem status_invariant_counterexample:
  "run_migration default_dir seconds (Popen [Readline [] (Some 0)])
       (JStr ''/a'') (JStr ''/b'') empty_world =
     Some (Finished, status_world (JObj
       [(''state'', JStr ''completed''), (''source'', JStr ''/a''), (''target'', JStr ''/b''),
        (''start_time'', JFloat 0), (''end_time'', JFloat 1)]))
   \<and> stop_migration default_dir (status_world (JObj
       [(''state'', JStr ''completed''), (''source'', JStr ''/a''), (''target'', JStr ''/b''),
        (''start_time'', JFloat 0), (''end_time'', JFloat 1)])) =
     Inr (Response 200 (JObj [(''status'', JStr ''stopping''),
                              (''message'', JStr ''Migration is being stopped'')]),
          status_world (JObj
       [(''state'', JStr ''stopping''), (''source'', JStr ''/a''), (''target'', JStr ''/b''),
        (''start_time'', JFloat 0), (''end_time'', JFloat 1)]))"
  by (simp add: run_migration_def begin_run_def Let_def final_status_def initial_status_def
      save_json_file_def empty_world_def status_world_def seconds_def stop_migration_def
      load_json_file_def)

section \<open>The queue\<close>











section \<open>Heartbeats\<close>

lemma generate_idle:
  assumes "\<forall>p \<in> set pending. now + 30 * k \<le> fst p"
  shows "generate k now pending = map (\<lambda>j. (now + 30 * Suc j, SSE heartbeat)) [0..<k]"
  using assms
proof (induction k arbitrary: now)
  case 0
  then show ?case by simp
next
  case (Suc k)
  have g: "queue_get_timed 30 now pending = (None, now + 30, pending)"
  proof (cases pending)
    case Nil
    then show ?thesis by (simp add: queue_get_timed_def)
  next
    case (Cons p rest)
    with Suc.prems have "now + 30 * Suc k \<le> fst p" by simp
    then have "\<not> fst p < now + 30" by simp
    with Cons show ?thesis
      by (cases p) (simp add: queue_get_timed_def)
  qed
  have "\<forall>p \<in> set pending. (now + 30) + 30 * k \<le> fst p"
    using Suc.prems by (simp add: add.assoc)
  from Suc.IH [OF this]
  have "generate k (now + 30) pending = map (\<lambda>j. (now + 30 + 30 * Suc j, SSE heartbeat)) [0..<k]" .
  then show ?case
    by (simp add: g yield_frame_def map_upt_Suc del: upt_Suc) 
qed


lemma queue_get_timed_waiting:
  assumes "pending = (t, item) # rest" and "t \<le> now" and "0 < timeout"
  shows "queue_get_timed timeout now pending = (Some item, now, rest)"
  using assms by (auto simp: queue_get_timed_def max_def)

lemma heartbeat_only_when_empty:
  assumes "queue_get_timed 30 now pending = (None, t, pending')"
    and "sorted (map fst pending)"
  shows "t = now + 30 \<and> pending' = pending \<and> (\<forall>p \<in> set pending. t \<le> fst p)"
proof (cases pending)
  case Nil
  with assms show ?thesis by (simp add: queue_get_timed_def)
next
  case (Cons p rest)
  obtain t0 item where p: "p = (t0, item)" by (cases p)
  with Cons assms(1) have n: "\<not> t0 < now + 30" and t: "t = now + 30" and e: "pending' = pending"
    by (auto simp: queue_get_timed_def split: if_splits)
  from assms(2) Cons p have "\<forall>q \<in> set rest. t0 \<le> fst q"
    by simp
  with n t e Cons p show ?thesis by auto
qed

lemma generate_arrival:
  assumes "pending = (t, item) # rest" and "t < now + 30"
  shows "generate (Suc n) now pending = (max t now, SSE item) # generate n (max t now) rest"
  using assms by (simp add: queue_get_timed_def yield_frame_def)

lemma generate_timeout:
  assumes "pending = [] \<or> (\<exists>t item rest. pending = (t, item) # rest \<and> now + 30 \<le> t)"
  shows "generate (Suc n) now pending = (now + 30, SSE heartbeat) # generate n (now + 30) pending"
  using assms by (auto simp: queue_get_timed_def yield_frame_def)

text \<open>
  C5, with time counted in units and one consumer of the queue. Every round of the
  generator is determined. With nothing to come, or with the next item put 30 units
  or more after the start of the round, the round yields one heartbeat when the 30
  units have passed, and the same items are still to come. With the next item put
  before that, the round yields that item, at the moment it is put or at once when it
  is already waiting, and no heartbeat. So when nothing reaches the consumer in the
  next \<open>k\<close> windows of 30 units, its next \<open>k\<close> frames are heartbeats, one at the end of
  each window; and the same holds for the \<open>k\<close> windows that follow an item received
  during a wait. When a round yields a heartbeat, no item was put before that moment.
\<close>

theorem heartbeat_once_per_window:
  "((\<forall>p \<in> set pending. now + 30 * k \<le> fst p) \<longrightarrow>
      generate k now pending = map (\<lambda>j. (now + 30 * Suc j, SSE heartbeat)) [0..<k])
   \<and> (pending = (t, item) # rest \<and> t \<le> now \<longrightarrow>
      generate (Suc n) now pending = (now, SSE item) # generate n now rest)
   \<and> (sorted (map fst pending) \<and> queue_get_timed 30 now pending = (None, t', pending') \<longrightarrow>
      t' = now + 30 \<and> pending' = pending \<and> (\<forall>p \<in> set pending. t' \<le> fst p))
   \<and> (pending = (t, item) # rest \<and> now < t \<and> t < now + 30 \<longrightarrow>
      generate (Suc n) now pending = (t, SSE item) # generate n t rest)
   \<and> (pending = (t, item) # rest \<and> now + 30 \<le> t \<longrightarrow>
      generate (Suc n) now pending = (now + 30, SSE heartbeat) # generate n (now + 30) pending)
   \<and> generate (Suc n) now [] = (now + 30, SSE heartbeat) # generate n (now + 30) []
   \<and> (pending = (t, item) # rest \<and> now < t \<and> t < now + 30
        \<and> (\<forall>p \<in> set rest. t + 30 * k \<le> fst p) \<longrightarrow>
      generate (Suc k) now pending =
        (t, SSE item) # map (\<lambda>j. (t + 30 * Suc j, SSE heartbeat)) [0..<k])"
proof (intro conjI impI)
  assume "\<forall>p \<in> set pending. now + 30 * k \<le> fst p"
  then show "generate k now pending = map (\<lambda>j. (now + 30 * Suc j, SSE heartbeat)) [0..<k]"
    by (rule generate_idle)
next
  assume "pending = (t, item) # rest \<and> t \<le> now"
  then show "generate (Suc n) now pending = (now, SSE item) # generate n now rest"
    by (simp add: queue_get_timed_waiting yield_frame_def)
next
  assume a: "sorted (map fst pending) \<and> queue_get_timed 30 now pending = (None, t', pending')"
  then show "t' = now + 30" "pending' = pending" "\<forall>p \<in> set pending. t' \<le> fst p"
    using heartbeat_only_when_empty [of now pending t' pending'] by blast+
next
  assume "pending = (t, item) # rest \<and> now < t \<and> t < now + 30"
  then show "generate (Suc n) now pending = (t, SSE item) # generate n t rest"
    using generate_arrival [of pending t item rest now n] by (simp add: max_def)
next
  assume "pending = (t, item) # rest \<and> now + 30 \<le> t"
  then show "generate (Suc n) now pending = (now + 30, SSE heartbeat) # generate n (now + 30) pending"
    using generate_timeout [of pending now n] by blast
next
  show "generate (Suc n) now [] = (now + 30, SSE heartbeat) # generate n (now + 30) []"
    by (rule generate_timeout) simp
next
  assume a: "pending = (t, item) # rest \<and> now < t \<and> t < now + 30
        \<and> (\<forall>p \<in> set rest. t + 30 * k \<le> fst p)"
  then have "generate (Suc k) now pending = (t, SSE item) # generate k t rest"
    using generate_arrival [of pending t item rest now k] by (simp add: max_def)
  also have "generate k t rest = map (\<lambda>j. (t + 30 * Suc j, SSE heartbeat)) [0..<k]"
    using a by (intro generate_idle) simp
  finally show "generate (Suc k) now pending =
        (t, SSE item) # map (\<lambda>j. (t + 30 * Suc j, SSE heartbeat)) [0..<k]" .
qed

theorem heartbeat_once_per_window_witness:
  "generate 2 110 [(200, JStr ''c'')] = [(140, SSE heartbeat), (170, SSE heartbeat)]
   \<and> generate 1 100 [(100, JStr ''a''), (110, JStr ''b'')] = [(100, SSE (JStr ''a''))]
   \<and> sorted (map fst [(200 :: nat, JStr ''c'')])
   \<and> queue_get_timed 30 110 [(200, JStr ''c'')] = (None, 140, [(200, JStr ''c'')])
   \<and> 140 \<le> fst (200 :: nat, JStr ''c'')
   \<and> generate 3 0 [(10, JStr ''a'')]
       = [(10, SSE (JStr ''a'')), (40, SSE heartbeat), (70, SSE heartbeat)]
   \<and> generate 1 0 [(30, JStr ''a'')] = [(30, SSE heartbeat)]"
proof -
  note t = heartbeat_once_per_window [where pending = "[(200, JStr ''c'')]" and now = 110
      and k = 2 and t' = 140 and pending' = "[(200, JStr ''c'')]"]
  note u = heartbeat_once_per_window [where pending = "[(100, JStr ''a''), (110, JStr ''b'')]"
      and now = 100 and t = 100 and item = "JStr ''a''" and rest = "[(110, JStr ''b'')]"
      and n = 0]
  note v = heartbeat_once_per_window [where pending = "[(10, JStr ''a'')]" and now = 0
      and t = 10 and item = "JStr ''a''" and rest = "[]" and k = 2]
  note x = heartbeat_once_per_window [where pending = "[(30, JStr ''a'')]" and now = 0
      and t = 30 and item = "JStr ''a''" and rest = "[]" and n = 0]
  have g: "queue_get_timed 30 110 [(200, JStr ''c'')] = (None, 140, [(200, JStr ''c'')])"
    by (simp add: queue_get_timed_def)
  from t have 1: "generate 2 110 [(200, JStr ''c'')] = [(140, SSE heartbeat), (170, SSE heartbeat)]"
    by (simp add: eval_nat_numeral)
  from u have 2: "generate 1 100 [(100, JStr ''a''), (110, JStr ''b'')] = [(100, SSE (JStr ''a''))]"
    by simp
  from t g have 3: "140 \<le> fst (200 :: nat, JStr ''c'')"
    by simp
  from v have 4: "generate 3 0 [(10, JStr ''a'')]
       = [(10, SSE (JStr ''a'')), (40, SSE heartbeat), (70, SSE heartbeat)]"
    by (simp add: eval_nat_numeral)
  from x have 5: "generate 1 0 [(30, JStr ''a'')] = [(30, SSE heartbeat)]"
    by simp
  from 1 2 3 4 5 g show ?thesis by simp
qed

end
